theory Spec2Isabelle
  imports Main
begin

section \<open>Syntax trees\<close>

text \<open>
  The pass of \<^verbatim>\<open>src/babel-auto-break.ts\<close> builds and rewrites Babel syntax trees.
  The node kinds it builds, tests for or reads are constructors here, with the fields
  in the order of Babel's builders; every other expression or statement of a program is
  carried opaquely by its source text. Fields the pass never touches (comments, end
  positions, directives) are left out. A JavaScript number is an \<open>int\<close>: the numbers
  of this program are line and column numbers and a count of milliseconds.
\<close>

type_synonym number = int

text \<open>
  A source position, as the object spread of \<^verbatim>\<open>breakAfter\<close> sees it: a coordinate is
  \<open>None\<close> when the object has no such property.
\<close>

datatype Position = Position (pos_line: "number option") (pos_column: "number option")

datatype SourceLocation = SourceLocation (loc_start: Position)

text \<open>
  \<open>Loop\<close> embeds the union \<^verbatim>\<open>ForStatement | WhileStatement | DoWhileStatement\<close> of the
  source's type \<^verbatim>\<open>Loop\<close> into the statements. The boolean of a member expression is
  Babel's \<^verbatim>\<open>computed\<close>; the booleans of a function are \<^verbatim>\<open>generator\<close> and \<^verbatim>\<open>async\<close>.
\<close>

datatype expr =
    Identifier string
  | NumericLiteral number
  | StringLiteral string
  | MemberExpression expr expr bool
  | CallExpression expr "expr list"
  | BinaryExpression string expr expr
  | SequenceExpression "expr list"
  | ArrowFunctionExpression "expr list" fbody bool
  | FunctionExpression "expr option" "expr list" stmt bool bool
  | OtherExpression string
and fbody =
    ExpressionBody expr
  | BlockBody stmt
and declarator =
    VariableDeclarator expr "expr option"
and stmt =
    ExpressionStatement expr
  | BlockStatement "stmt list"
  | IfStatement expr stmt "stmt option"
  | BreakStatement "expr option"
  | VariableDeclaration string "declarator list"
  | FunctionDeclaration "expr option" "expr list" stmt bool bool
  | Loop loop_node
  | OtherStatement string
and loop_node =
    ForStatement "SourceLocation option" "for_init option" "expr option" "expr option" stmt
  | WhileStatement "SourceLocation option" expr stmt
  | DoWhileStatement "SourceLocation option" stmt expr
and for_init =
    InitDeclaration stmt
  | InitExpression expr

section \<open>Guard fragments\<close>

text \<open>\<^verbatim>\<open>generateInitialization\<close>, lines 90 to 102: \<^verbatim>\<open>var <id> = Date.now()\<close>. The
  source's parameter \<^verbatim>\<open>id\<close> is \<open>uid\<close> here and below (\<open>id\<close> is HOL's identity).\<close>

definition generateInitialization :: "expr \<Rightarrow> stmt" where
  "generateInitialization uid =
     VariableDeclaration ''var''
       [VariableDeclarator uid
          (Some (CallExpression
                   (MemberExpression (Identifier ''Date'') (Identifier ''now'') False) []))]"

text \<open>
  \<^verbatim>\<open>generateLoopGuard\<close>, lines 113 to 144. \<^verbatim>\<open>t.ifStatement\<close> is called without an
  alternate and \<^verbatim>\<open>t.breakStatement\<close> without a label, so both are \<open>None\<close>.
\<close>

definition generateLoopGuard :: "expr \<Rightarrow> number \<Rightarrow> number \<Rightarrow> number \<Rightarrow> expr \<Rightarrow> stmt" where
  "generateLoopGuard uid line column timeout onAutoBreak =
     IfStatement
       (BinaryExpression ''>''
          (BinaryExpression ''-''
             (CallExpression
                (MemberExpression (Identifier ''Date'') (Identifier ''now'') False) [])
             uid)
          (NumericLiteral timeout))
       (BlockStatement
          [ExpressionStatement
             (CallExpression onAutoBreak [NumericLiteral line, NumericLiteral column]),
           BreakStatement None])
       None"

section \<open>The callback synthesizer\<close>

text \<open>
  A string is a list of characters below 256; \<open>dquote\<close> and \<open>backslash\<close> name the two
  characters the source text of the message callback turns on.
\<close>

abbreviation dquote :: char where
  "dquote \<equiv> CHR 0x22"

abbreviation backslash :: char where
  "backslash \<equiv> CHR 0x5C"

text \<open>
  The option \<^verbatim>\<open>onBreak\<close>: a message, or a function. The pass reads a function only
  through \<^verbatim>\<open>onBreak.toString()\<close>, so a function is carried by that text.
\<close>

datatype onBreak_value = Message string | Callable string

text \<open>
  The regular expression class \<^verbatim>\<open>\s\<close> on characters below 256: tab, line feed,
  vertical tab, form feed, carriage return, space, no-break space.
\<close>

definition isWhiteSpace :: "char \<Rightarrow> bool" where
  "isWhiteSpace c =
     (c = CHR 0x09 \<or> c = CHR 0x0A \<or> c = CHR 0x0B \<or> c = CHR 0x0C \<or> c = CHR 0x0D
      \<or> c = CHR 0x20 \<or> c = CHR 0xA0)"

fun stripPrefix :: "string \<Rightarrow> string \<Rightarrow> string option" where
  "stripPrefix [] s = Some s"
| "stripPrefix (p # ps) [] = None"
| "stripPrefix (p # ps) (c # cs) = (if p = c then stripPrefix ps cs else None)"

text \<open>
  A match of \<^verbatim>\<open>/^function\s*\(/\<close>: the text after the match, or \<open>None\<close>. The
  expression is anchored at the start and has no flag; \<^verbatim>\<open>\s*\<close> is greedy, and giving
  back white space never helps, since the next character must be the parenthesis.
\<close>

definition matchFunctionHead :: "string \<Rightarrow> string option" where
  "matchFunctionHead s =
     (case stripPrefix ''function'' s of
        None \<Rightarrow> None
      | Some r \<Rightarrow>
          (case dropWhile isWhiteSpace r of
             [] \<Rightarrow> None
           | c # rest \<Rightarrow> if c = CHR ''('' then Some rest else None))"

text \<open>
  \<^verbatim>\<open>.replace(/^function\s*\(/, 'function $onAutoBreak$(')\<close>, line 65. Neither dollar sign
  of the replacement starts a substitution pattern, so it is inserted as written.
\<close>

definition renameFunctionHead :: "string \<Rightarrow> string" where
  "renameFunctionHead s =
     (case matchFunctionHead s of
        None \<Rightarrow> s
      | Some rest \<Rightarrow> ''function $onAutoBreak$('' @ rest)"

text \<open>\<^verbatim>\<open>.replace(/"/g, '\\"')\<close>, line 66: a backslash before every double quote.\<close>

fun escapeQuotes :: "string \<Rightarrow> string" where
  "escapeQuotes [] = []"
| "escapeQuotes (c # cs) =
     (if c = dquote then backslash # dquote # escapeQuotes cs else c # escapeQuotes cs)"

text \<open>The text handed to the parser, lines 64 to 66.\<close>

definition onAutoBreakCode :: "onBreak_value \<Rightarrow> string" where
  "onAutoBreakCode onBreak =
     (case onBreak of
        Callable src \<Rightarrow> renameFunctionHead src
      | Message msg \<Rightarrow>
          ''() => console.error('' @ [dquote] @ escapeQuotes msg @ [dquote] @ '')'')"

text \<open>
  Babel as the pass uses it. \<open>transform\<close> is the host's parser, a parameter of the model:
  it gives the statements of the parsed program, or \<open>None\<close> where
  \<^verbatim>\<open>transform(code, { ast: true })?.ast\<close> is undefined. The builders \<^verbatim>\<open>t.*\<close> are the
  constructors above.
\<close>

record Babel =
  transform :: "string \<Rightarrow> stmt list option"

text \<open>
  What is thrown: \<^verbatim>\<open>throw new Error(message)\<close> of line 80, and the \<^verbatim>\<open>TypeError\<close> of the
  language for a call of something that is not a function.
\<close>

datatype error = Error string | TypeError string

text \<open>\<^verbatim>\<open>?.ast?.program.body[0]\<close>, line 68: undefined for no tree and for an empty program.\<close>

definition firstStatement :: "stmt list option \<Rightarrow> stmt option" where
  "firstStatement r =
     (case r of None \<Rightarrow> None | Some body \<Rightarrow> (case body of [] \<Rightarrow> None | s # _ \<Rightarrow> Some s))"

text \<open>
  Lines 70 to 80: the two tests on the first statement, in the source's order, and the
  throw. \<^verbatim>\<open>t.functionExpression\<close> gets three arguments, so \<^verbatim>\<open>generator\<close> and
  \<^verbatim>\<open>async\<close> take the builder's default, false.
\<close>

fun fromStatement :: "stmt option \<Rightarrow> error + expr" where
  "fromStatement (Some (ExpressionStatement e)) = Inr e"
| "fromStatement (Some (FunctionDeclaration fid params body gen asy)) =
     Inr (FunctionExpression fid params body False False)"
| "fromStatement _ = Inl (Error ''babel-babel-auto-break: invalid onBreak action'')"

text \<open>
  \<^verbatim>\<open>transformOnBreak\<close>, lines 62 to 81. The list threaded through is the record of the
  texts handed to the parser, in order: it makes the number of syntheses observable.
\<close>

definition transformOnBreak ::
  "Babel \<Rightarrow> onBreak_value \<Rightarrow> string list \<Rightarrow> (error + expr) \<times> string list" where
  "transformOnBreak babel onBreak parsed =
     (let code = onAutoBreakCode onBreak;
          onAutoBreak = firstStatement (transform babel code)
      in (fromStatement onAutoBreak, parsed @ [code]))"

section \<open>The loop rewriter\<close>

text \<open>
  The options of the pass, both optional, and the defaults of line 26. \<open>noop\<close> is the text
  of \<^verbatim>\<open>function (): void { }\<close> once its type annotation is compiled away.
\<close>

record AutoBreakOptions =
  opt_onBreak :: "onBreak_value option"
  opt_timeout :: "number option"

definition noop :: onBreak_value where
  "noop = Callable ''function () { }''"

text \<open>
  What the visitor \<^verbatim>\<open>breakAfter\<close> closes over: \<^verbatim>\<open>timeout\<close> and \<^verbatim>\<open>onAutoBreak\<close>.
\<close>

record Plugin =
  pluginTimeout :: number
  pluginOnAutoBreak :: expr

text \<open>\<^verbatim>\<open>autoBreak\<close>, lines 23 to 36: the one call of \<^verbatim>\<open>transformOnBreak\<close>.\<close>

definition autoBreak ::
  "Babel \<Rightarrow> AutoBreakOptions \<Rightarrow> string list \<Rightarrow> (error + Plugin) \<times> string list" where
  "autoBreak babel options parsed =
     (let timeout = (case opt_timeout options of None \<Rightarrow> 2000 | Some ms \<Rightarrow> ms);
          onBreak = (case opt_onBreak options of None \<Rightarrow> noop | Some f \<Rightarrow> f);
          r = transformOnBreak babel onBreak parsed
      in (case fst r of
            Inl e \<Rightarrow> Inl e
          | Inr onAutoBreak \<Rightarrow>
              Inr \<lparr>pluginTimeout = timeout, pluginOnAutoBreak = onAutoBreak\<rparr>,
          snd r))"

text \<open>
  Where a visited loop stands. It is an element of a statement list (the body of a
  program or of a block, the statements of a switch case), with the statements before
  and after it in that list; or it is the single statement of a branch: the consequent
  or alternate of an \<^verbatim>\<open>if\<close>, the body of a \<^verbatim>\<open>with\<close>, \<^verbatim>\<open>for-in\<close> or \<^verbatim>\<open>for-of\<close>
  statement, written without braces. (The bare body of a \<^verbatim>\<open>for\<close>, \<^verbatim>\<open>while\<close> or \<^verbatim>\<open>do\<close>
  loop is in a list by the time it is visited: the visit of the outer loop has wrapped
  it.) A loop under a label is not modelled.
\<close>

datatype place = ListElement "stmt list" "stmt list" | SingleChild

text \<open>
  The path \<^verbatim>\<open>loop\<close> of the visitor: the loop, its place, and the state of its scope.
\<close>

record 's NodePath =
  node :: loop_node
  place :: place
  scope :: 's



text \<open>The fields of a loop; \<open>replaceWith\<close> is \<^verbatim>\<open>loopBody.replaceWith\<close> seen from the loop.\<close>

fun loc :: "loop_node \<Rightarrow> SourceLocation option" where
  "loc (ForStatement l i t u b) = l"
| "loc (WhileStatement l t b) = l"
| "loc (DoWhileStatement l b t) = l"

fun get_body :: "loop_node \<Rightarrow> stmt" where
  "get_body (ForStatement l i t u b) = b"
| "get_body (WhileStatement l t b) = b"
| "get_body (DoWhileStatement l b t) = b"

fun replaceWith :: "loop_node \<Rightarrow> stmt \<Rightarrow> loop_node" where
  "replaceWith (ForStatement l i t u b) b' = ForStatement l i t u b'"
| "replaceWith (WhileStatement l t b) b' = WhileStatement l t b'"
| "replaceWith (DoWhileStatement l b t) b' = DoWhileStatement l b' t"

fun isBlockStatement :: "stmt \<Rightarrow> bool" where
  "isBlockStatement (BlockStatement ss) = True"
| "isBlockStatement _ = False"

text \<open>
  \<^verbatim>\<open>unshiftContainer('body', s)\<close> on a block: \<open>s\<close> becomes its first statement. The pass
  calls it on a block only.
\<close>

fun unshiftContainer :: "stmt \<Rightarrow> stmt \<Rightarrow> stmt" where
  "unshiftContainer (BlockStatement ss) s = BlockStatement (s # ss)"
| "unshiftContainer other s = other"

text \<open>
  \<^verbatim>\<open>loop.insertBefore(s)\<close>, as Babel's \<^verbatim>\<open>NodePath.insertBefore\<close> does it for a statement.
  In a list, \<open>s\<close> becomes the sibling right before the loop and the path stays on the
  loop. For a single statement of a branch there is no list: Babel replaces the node of
  the path by a new block that holds the loop, puts \<open>s\<close> first in that block, and the
  path \<^verbatim>\<open>loop\<close> from then on is the path of the block, whose statements are given here.
\<close>

datatype 's inserted = OnLoop "'s NodePath" | OnBlock "stmt list"

definition insertBefore :: "'s NodePath \<Rightarrow> stmt \<Rightarrow> 's inserted" where
  "insertBefore p s =
     (case place p of
        ListElement pre post \<Rightarrow> OnLoop (p\<lparr>place := ListElement (pre @ [s]) post\<rparr>)
      | SingleChild \<Rightarrow> OnBlock [s, Loop (node p)])"

text \<open>
  \<^verbatim>\<open>{ line: 0, column: 0, ...loop.node.loc?.start }\<close>, line 40: the spread overwrites a
  default with each property the start position has.
\<close>

definition startOrZero :: "SourceLocation option \<Rightarrow> number \<times> number" where
  "startOrZero l =
     (case l of
        None \<Rightarrow> (0, 0)
      | Some (SourceLocation start) \<Rightarrow>
          ((case pos_line start of None \<Rightarrow> 0 | Some n \<Rightarrow> n),
           (case pos_column start of None \<Rightarrow> 0 | Some n \<Rightarrow> n)))"

text \<open>
  \<^verbatim>\<open>scope.generateUidIdentifier(hint)\<close>. The host's name supply \<open>generateUid\<close> is a
  parameter: from the scope and a hint it gives a name and the scope that has it.
\<close>

definition generateUidIdentifier ::
  "('s \<Rightarrow> string \<Rightarrow> string \<times> 's) \<Rightarrow> 's \<Rightarrow> string \<Rightarrow> expr \<times> 's" where
  "generateUidIdentifier generateUid s hint =
     (Identifier (fst (generateUid s hint)), snd (generateUid s hint))"

text \<open>
  \<^verbatim>\<open>breakAfter\<close>, lines 38 to 53, returning the path as the rewrite leaves it, or what
  it throws. When line 43 has left the path on a block, \<^verbatim>\<open>loop.get('body')\<close> of line 45
  is the array of the paths of the block's statements, an array has no method
  \<^verbatim>\<open>isBlockStatement\<close>, and the call of line 48 throws.
\<close>

definition breakAfter ::
  "('s \<Rightarrow> string \<Rightarrow> string \<times> 's) \<Rightarrow> Plugin \<Rightarrow> 's NodePath \<Rightarrow> error + 's NodePath" where
  "breakAfter generateUid plugin loop =
     (let line = fst (startOrZero (loc (node loop)));
          column = snd (startOrZero (loc (node loop)));
          minted = generateUidIdentifier generateUid (scope loop) ''auto_break_start'';
          uid = fst minted
      in case insertBefore (loop\<lparr>scope := snd minted\<rparr>) (generateInitialization uid) of
           OnBlock statements \<Rightarrow>
             Inl (TypeError ''loopBody.isBlockStatement is not a function'')
         | OnLoop loop1 \<Rightarrow>
             (let loopBody = get_body (node loop1);
                  loopGuard =
                    generateLoopGuard uid line column
                      (pluginTimeout plugin) (pluginOnAutoBreak plugin)
              in Inr (if \<not> isBlockStatement loopBody
                      then loop1\<lparr>node :=
                             replaceWith (node loop1) (BlockStatement [loopGuard, loopBody])\<rparr>
                      else loop1\<lparr>node :=
                             replaceWith (node loop1) (unshiftContainer loopBody loopGuard)\<rparr>)))"

text \<open>
  One run of the pass: the plugin is made, then the traversal calls the visitor once for
  each loop it meets, in order, until a visit throws. A run leaves the loops it has
  rewritten, and the error that ended it, if one did.
\<close>

datatype 's run = Run (rewritten: "'s NodePath list") (thrown: "error option")

fun traverse ::
  "('s \<Rightarrow> string \<Rightarrow> string \<times> 's) \<Rightarrow> Plugin \<Rightarrow> 's NodePath list \<Rightarrow> 's run" where
  "traverse generateUid plugin [] = Run [] None"
| "traverse generateUid plugin (p # ps) =
     (case breakAfter generateUid plugin p of
        Inl e \<Rightarrow> Run [] (Some e)
      | Inr p' \<Rightarrow>
          Run (p' # rewritten (traverse generateUid plugin ps))
              (thrown (traverse generateUid plugin ps)))"

definition runPass ::
  "('s \<Rightarrow> string \<Rightarrow> string \<times> 's) \<Rightarrow> Babel \<Rightarrow> AutoBreakOptions \<Rightarrow> 's NodePath list \<Rightarrow>
     string list \<Rightarrow> 's run \<times> string list" where
  "runPass generateUid babel options loops parsed =
     (let made = autoBreak babel options parsed
      in (case fst made of
            Inl e \<Rightarrow> Run [] (Some e)
          | Inr plugin \<Rightarrow> traverse generateUid plugin loops,
          snd made))"

section \<open>Reading the rewritten tree\<close>

text \<open>
  Babel's two node tests of lines 70 and 75; both are false of an undefined node.
\<close>

fun isExpressionStatement :: "stmt option \<Rightarrow> bool" where
  "isExpressionStatement (Some (ExpressionStatement e)) = True"
| "isExpressionStatement _ = False"

fun isFunctionDeclaration :: "stmt option \<Rightarrow> bool" where
  "isFunctionDeclaration (Some (FunctionDeclaration fid params body gen asy)) = True"
| "isFunctionDeclaration _ = False"

text \<open>The first statement of a loop's body, when the body is a block that has one.\<close>

fun firstOfBody :: "loop_node \<Rightarrow> stmt option" where
  "firstOfBody l =
     (case get_body l of
        BlockStatement (s # ss) \<Rightarrow> Some s
      | _ \<Rightarrow> None)"

text \<open>
  The callee and the arguments of the call that opens the consequent of a conditional
  statement: of a guard, the callback and the position it is given.
\<close>

fun guardCall :: "stmt \<Rightarrow> (expr \<times> expr list) option" where
  "guardCall (IfStatement test (BlockStatement (ExpressionStatement (CallExpression f args) # ss)) alt) =
     Some (f, args)"
| "guardCall _ = None"

section \<open>What a guard does when it runs\<close>

text \<open>
  The value of the arithmetic a guard's test is made of, at the instant \<open>now\<close> (what
  \<^verbatim>\<open>Date.now()\<close> returns) and with the variables bound by \<open>env\<close>: literals, variables,
  \<^verbatim>\<open>Date.now()\<close> and subtraction. Any other expression has no value here.
\<close>

fun evalNumber :: "number \<Rightarrow> (string \<Rightarrow> number option) \<Rightarrow> expr \<Rightarrow> number option" where
  "evalNumber now env (NumericLiteral n) = Some n"
| "evalNumber now env (Identifier x) = env x"
| "evalNumber now env (CallExpression f args) =
     (if f = MemberExpression (Identifier ''Date'') (Identifier ''now'') False \<and> args = []
      then Some now else None)"
| "evalNumber now env (BinaryExpression op a b) =
     (if op = ''-''
      then (case evalNumber now env a of
              None \<Rightarrow> None
            | Some x \<Rightarrow> (case evalNumber now env b of None \<Rightarrow> None | Some y \<Rightarrow> Some (x - y)))
      else None)"
| "evalNumber now env other = None"

text \<open>The comparison \<^verbatim>\<open>a > b\<close> of two such values.\<close>

fun evalTest :: "number \<Rightarrow> (string \<Rightarrow> number option) \<Rightarrow> expr \<Rightarrow> bool option" where
  "evalTest now env (BinaryExpression op a b) =
     (if op = ''>''
      then (case evalNumber now env a of
              None \<Rightarrow> None
            | Some x \<Rightarrow> (case evalNumber now env b of None \<Rightarrow> None | Some y \<Rightarrow> Some (y < x)))
      else None)"
| "evalTest now env other = None"

text \<open>Whether a conditional statement enters its consequent.\<close>

fun guardFires :: "number \<Rightarrow> (string \<Rightarrow> number option) \<Rightarrow> stmt \<Rightarrow> bool option" where
  "guardFires now env (IfStatement test cons alt) = evalTest now env test"
| "guardFires now env other = None"

section \<open>What the message callback reports\<close>

text \<open>
  How JavaScript reads a double-quoted string literal, from the character after the
  opening quote: the value of the literal and the text after its closing quote. An
  unescaped line break or the end of the text before the closing quote is a syntax
  error. After a backslash, \<^verbatim>\<open>b f n r t v\<close> stand for control characters, a line
  break is skipped, and any other character but a digit, \<^verbatim>\<open>x\<close> or \<^verbatim>\<open>u\<close> stands for
  itself; the numeric escapes are not modelled.
\<close>

datatype literal = Literal string string | SyntaxError | NotModelled

fun singleEscape :: "char \<Rightarrow> char" where
  "singleEscape c =
     (if c = CHR ''b'' then CHR 0x08
      else if c = CHR ''f'' then CHR 0x0C
      else if c = CHR ''n'' then CHR 0x0A
      else if c = CHR ''r'' then CHR 0x0D
      else if c = CHR ''t'' then CHR 0x09
      else if c = CHR ''v'' then CHR 0x0B
      else c)"

fun consLiteral :: "char \<Rightarrow> literal \<Rightarrow> literal" where
  "consLiteral c (Literal v rest) = Literal (c # v) rest"
| "consLiteral c other = other"

fun readDoubleQuoted :: "string \<Rightarrow> literal" where
  "readDoubleQuoted [] = SyntaxError"
| "readDoubleQuoted [c] = (if c = dquote then Literal [] [] else SyntaxError)"
| "readDoubleQuoted (c # e # es) =
     (if c = dquote then Literal [] (e # es)
      else if c = CHR 0x0A \<or> c = CHR 0x0D then SyntaxError
      else if c \<noteq> backslash then consLiteral c (readDoubleQuoted (e # es))
      else if e = CHR 0x0A then readDoubleQuoted es
      else if e = CHR 0x0D
        then (case es of
                [] \<Rightarrow> SyntaxError
              | d # ds \<Rightarrow> if d = CHR 0x0A then readDoubleQuoted ds else readDoubleQuoted es)
      else if e \<in> set ''0123456789xu'' then NotModelled
      else consLiteral (singleEscape e) (readDoubleQuoted es))"

text \<open>
  What the message callback hands to \<^verbatim>\<open>console.error\<close>: the value of the string literal
  that follows \<^verbatim>\<open>() => console.error("\<close> in the synthesized text.
\<close>

definition reportedText :: "string \<Rightarrow> literal" where
  "reportedText code =
     (case stripPrefix (''() => console.error('' @ [dquote]) code of
        None \<Rightarrow> SyntaxError
      | Some r \<Rightarrow> readDoubleQuoted r)"

section \<open>Names for what a rewrite builds\<close>

text \<open>
  The guard and the initialization that \<open>breakAfter\<close> builds for a loop, written out from
  its lines 40 to 46: the identifier is the one minted from the loop's scope with the
  hint \<^verbatim>\<open>auto_break_start\<close>, the position is the loop's own, the timeout and the
  callback are the plugin's.
\<close>

definition guardOf :: "('s \<Rightarrow> string \<Rightarrow> string \<times> 's) \<Rightarrow> Plugin \<Rightarrow> 's NodePath \<Rightarrow> stmt" where
  "guardOf generateUid plugin loop =
     generateLoopGuard (Identifier (fst (generateUid (scope loop) ''auto_break_start'')))
       (fst (startOrZero (loc (node loop)))) (snd (startOrZero (loc (node loop))))
       (pluginTimeout plugin) (pluginOnAutoBreak plugin)"

definition initOf :: "('s \<Rightarrow> string \<Rightarrow> string \<times> 's) \<Rightarrow> 's NodePath \<Rightarrow> stmt" where
  "initOf generateUid loop =
     generateInitialization (Identifier (fst (generateUid (scope loop) ''auto_break_start'')))"

text \<open>Of the guard that opens a loop's body: the callback called, and its arguments.\<close>

definition guardCallee :: "loop_node \<Rightarrow> expr option" where
  "guardCallee l =
     (case firstOfBody l of
        None \<Rightarrow> None
      | Some g \<Rightarrow> (case guardCall g of None \<Rightarrow> None | Some call \<Rightarrow> Some (fst call)))"


text \<open>
  An expression statement that wraps a function, arrow or not: the first of the two
  shapes the specification names for the parsed callback.
\<close>

fun wrapsCallable :: "stmt option \<Rightarrow> bool" where
  "wrapsCallable (Some (ExpressionStatement (ArrowFunctionExpression params body asy))) = True"
| "wrapsCallable (Some (ExpressionStatement (FunctionExpression fid params body gen asy))) = True"
| "wrapsCallable _ = False"

section \<open>Concrete instances\<close>

text \<open>
  A name supply, a plugin and four loops for the instances below. Two are elements of a
  statement list: a \<^verbatim>\<open>while\<close> loop at line 5, column 2, whose body is a bare call,
  between two other statements; and a \<^verbatim>\<open>for\<close> loop without a recorded position whose
  body is a block of two statements. Two are single statements of a branch: the
  \<^verbatim>\<open>while\<close> loop of \<^verbatim>\<open>if (c) while (a) b();\<close> and the \<^verbatim>\<open>do\<close> loop of
  \<^verbatim>\<open>for (x of xs) do { step(); } while (more);\<close>.
\<close>

definition exampleGenerateUid :: "nat \<Rightarrow> string \<Rightarrow> string \<times> nat" where
  "exampleGenerateUid n hint = (''_'' @ hint @ replicate n (CHR ''_''), Suc n)"

definition examplePlugin :: Plugin where
  "examplePlugin = \<lparr>pluginTimeout = 2000, pluginOnAutoBreak = Identifier ''notify''\<rparr>"

definition bareWhile :: "nat NodePath" where
  "bareWhile =
     \<lparr>node = WhileStatement (Some (SourceLocation (Position (Some 5) (Some 2))))
               (Identifier ''busy'')
               (ExpressionStatement (CallExpression (Identifier ''work'') [])),
      place = ListElement [OtherStatement ''setup();''] [OtherStatement ''finish();''],
      scope = 0\<rparr>"

definition blockFor :: "nat NodePath" where
  "blockFor =
     \<lparr>node = ForStatement None None None None
               (BlockStatement [OtherStatement ''a();'', OtherStatement ''b();'']),
      place = ListElement [] [],
      scope = 1\<rparr>"

definition branchWhile :: "nat NodePath" where
  "branchWhile =
     \<lparr>node = WhileStatement (Some (SourceLocation (Position (Some 1) (Some 7))))
               (Identifier ''a'')
               (ExpressionStatement (CallExpression (Identifier ''b'') [])),
      place = SingleChild,
      scope = 0\<rparr>"

definition branchDo :: "nat NodePath" where
  "branchDo =
     \<lparr>node = DoWhileStatement (Some (SourceLocation (Position (Some 1) (Some 15))))
               (BlockStatement [ExpressionStatement (CallExpression (Identifier ''step'') [])])
               (Identifier ''more''),
      place = SingleChild,
      scope = 0\<rparr>"

text \<open>
  Two texts that \<^verbatim>\<open>toString\<close> gives for a function: a method whose brace stands on the
  line after its parameters, and a named async function.
\<close>

definition methodText :: string where
  "methodText = ''report(line, column)'' @ [CHR 0x0A] @ ''{ }''"

definition asyncText :: string where
  "asyncText = ''async function report(line, column) { await notify(line, column); }''"

text \<open>
  The trees a JavaScript parser gives for six texts, as a table standing for
  \<^verbatim>\<open>transform\<close>: the message callback for \<^verbatim>\<open>stuck\<close>; the default callback once renamed; a
  named function; the async function, whose declaration is marked \<^verbatim>\<open>async\<close>; a class; and
  the method text, which reads as a call, ended by the line break, and an empty block.
\<close>

definition exampleParser :: "string \<Rightarrow> stmt list option" where
  "exampleParser code =
     (if code = ''() => console.error('' @ [dquote] @ ''stuck'' @ [dquote] @ '')'' then
        Some [ExpressionStatement
                (ArrowFunctionExpression []
                   (ExpressionBody
                      (CallExpression
                         (MemberExpression (Identifier ''console'') (Identifier ''error'') False)
                         [StringLiteral ''stuck'']))
                   False)]
      else if code = ''function $onAutoBreak$() { }'' then
        Some [FunctionDeclaration (Some (Identifier ''$onAutoBreak$'')) [] (BlockStatement [])
                False False]
      else if code = ''function report(line, column) { }'' then
        Some [FunctionDeclaration (Some (Identifier ''report''))
                [Identifier ''line'', Identifier ''column''] (BlockStatement []) False False]
      else if code = asyncText then
        Some [FunctionDeclaration (Some (Identifier ''report''))
                [Identifier ''line'', Identifier ''column'']
                (BlockStatement
                   [ExpressionStatement (OtherExpression ''await notify(line, column)'')])
                False True]
      else if code = ''class Reporter { }'' then
        Some [OtherStatement ''class Reporter { }'']
      else if code = methodText then
        Some [ExpressionStatement
                (CallExpression (Identifier ''report'')
                   [Identifier ''line'', Identifier ''column'']),
              BlockStatement []]
      else None)"

definition exampleBabel :: Babel where
  "exampleBabel = \<lparr>transform = exampleParser\<rparr>"

section \<open>Lemmas on the rewrite\<close>

lemma get_body_replaceWith: "get_body (replaceWith l b) = b"
  by (cases l) simp_all

lemma isBlockStatement_iff: "isBlockStatement b = (\<exists>ss. b = BlockStatement ss)"
  by (cases b) simp_all

lemma breakAfter_list:
  "place p = ListElement pre post \<Longrightarrow>
   breakAfter gen pl p =
     Inr (p\<lparr>scope := snd (gen (scope p) ''auto_break_start''),
            place := ListElement (pre @ [initOf gen p]) post,
            node := replaceWith (node p)
                      (BlockStatement (guardOf gen pl p #
                         (case get_body (node p) of BlockStatement ss \<Rightarrow> ss | b \<Rightarrow> [b])))\<rparr>)"
  by (cases "get_body (node p)")
     (simp_all add: breakAfter_def Let_def insertBefore_def generateUidIdentifier_def
        guardOf_def initOf_def)

lemma breakAfter_single:
  "place p = SingleChild \<Longrightarrow>
   breakAfter gen pl p = Inl (TypeError ''loopBody.isBlockStatement is not a function'')"
  by (simp add: breakAfter_def Let_def insertBefore_def)

lemma breakAfter_InrD:
  assumes "breakAfter gen pl p = Inr p'"
  shows "\<exists>pre post. place p = ListElement pre post
           \<and> place p' = ListElement (pre @ [initOf gen p]) post
           \<and> scope p' = snd (gen (scope p) ''auto_break_start'')
           \<and> node p' = replaceWith (node p)
                (BlockStatement (guardOf gen pl p #
                   (case get_body (node p) of BlockStatement ss \<Rightarrow> ss | b \<Rightarrow> [b])))"
proof (cases "place p")
  case (ListElement pre post)
  from breakAfter_list [OF this, of gen pl] assms ListElement show ?thesis by auto
next
  case SingleChild
  from breakAfter_single [OF this, of gen pl] assms show ?thesis by simp
qed

lemma body_breakAfter:
  "breakAfter gen pl p = Inr p' \<Longrightarrow>
   get_body (node p') =
     BlockStatement (guardOf gen pl p #
       (case get_body (node p) of BlockStatement ss \<Rightarrow> ss | b \<Rightarrow> [b]))"
  by (drule breakAfter_InrD) (auto simp: get_body_replaceWith)

lemma firstOfBody_breakAfter:
  "breakAfter gen pl p = Inr p' \<Longrightarrow> firstOfBody (node p') = Some (guardOf gen pl p)"
  by (simp add: body_breakAfter)

lemma guardCall_guardOf:
  "guardCall (guardOf gen pl p) =
     Some (pluginOnAutoBreak pl,
           [NumericLiteral (fst (startOrZero (loc (node p)))),
            NumericLiteral (snd (startOrZero (loc (node p))))])"
  by (simp add: guardOf_def generateLoopGuard_def)


lemma breakAfter_succeeds:
  "place p = ListElement pre post \<Longrightarrow> \<exists>p'. breakAfter gen pl p = Inr p'"
  by (simp add: breakAfter_list)

section \<open>The guard (C1)\<close>

text \<open>
  C1. For every loop the visitor rewrites, the first statement of the new body is the
  conditional \<^verbatim>\<open>if (Date.now() - <id> > <timeout>) { <callback>(<line>, <column>); break; }\<close>
  with no alternate: \<open><id>\<close> is the identifier minted for this loop, \<open><timeout>\<close>,
  \<open><line>\<close> and \<open><column>\<close> are numeric literals holding the plugin's timeout and this
  loop's start position, and the exit is a \<^verbatim>\<open>break\<close> without a label, the last statement
  of a block that lies in the loop's body with no other loop in between. Every loop that
  is an element of a statement list is rewritten. The operator is \<^verbatim>\<open>>\<close>: at the instant
  \<open>now\<close>, with the timer variable holding \<open>start\<close>, the guard enters its consequent
  exactly when \<open>now - start\<close> exceeds the timeout, and it does not when the elapsed time
  equals the timeout.
\<close>

theorem guard_form:
  "(breakAfter gen pl p = Inr p' \<longrightarrow>
      firstOfBody (node p') =
        Some (IfStatement
       (BinaryExpression ''>''
          (BinaryExpression ''-''
             (CallExpression (MemberExpression (Identifier ''Date'') (Identifier ''now'') False) [])
             (Identifier (fst (gen (scope p) ''auto_break_start''))))
          (NumericLiteral (pluginTimeout pl)))
       (BlockStatement
          [ExpressionStatement
             (CallExpression (pluginOnAutoBreak pl)
                [NumericLiteral (fst (startOrZero (loc (node p)))),
                 NumericLiteral (snd (startOrZero (loc (node p))))]),
           BreakStatement None])
       None))
   \<and> (place p = ListElement pre post \<longrightarrow> (\<exists>q. breakAfter gen pl p = Inr q))
   \<and> guardFires now (env(x \<mapsto> start)) (generateLoopGuard (Identifier x) line column ms cb)
       = Some (ms < now - start)
   \<and> guardFires (start + ms) (env(x \<mapsto> start)) (generateLoopGuard (Identifier x) line column ms cb)
       = Some False"
  by (simp add: firstOfBody_breakAfter breakAfter_succeeds guardOf_def generateLoopGuard_def
      del: firstOfBody.simps)

theorem guard_form_witness:
  "\<exists>q. breakAfter exampleGenerateUid examplePlugin bareWhile = Inr q
     \<and> firstOfBody (node q) =
         Some (IfStatement
           (BinaryExpression ''>''
              (BinaryExpression ''-''
                 (CallExpression
                    (MemberExpression (Identifier ''Date'') (Identifier ''now'') False) [])
                 (Identifier ''_auto_break_start''))
              (NumericLiteral 2000))
           (BlockStatement
              [ExpressionStatement
                 (CallExpression (Identifier ''notify'') [NumericLiteral 5, NumericLiteral 2]),
               BreakStatement None])
           None)"
proof -
  have pl: "place bareWhile =
      ListElement [OtherStatement ''setup();''] [OtherStatement ''finish();'']"
    by (simp add: bareWhile_def)
  note g = guard_form [where p = bareWhile and gen = exampleGenerateUid and pl = examplePlugin
      and pre = "[OtherStatement ''setup();'']" and post = "[OtherStatement ''finish();'']"]
  from g pl obtain q where q: "breakAfter exampleGenerateUid examplePlugin bareWhile = Inr q"
    by blast
  from g [where p' = q] q have "firstOfBody (node q) =
      Some (IfStatement
       (BinaryExpression ''>''
          (BinaryExpression ''-''
             (CallExpression (MemberExpression (Identifier ''Date'') (Identifier ''now'') False) [])
             (Identifier (fst (exampleGenerateUid (scope bareWhile) ''auto_break_start''))))
          (NumericLiteral (pluginTimeout examplePlugin)))
       (BlockStatement
          [ExpressionStatement
             (CallExpression (pluginOnAutoBreak examplePlugin)
                [NumericLiteral (fst (startOrZero (loc (node bareWhile)))),
                 NumericLiteral (snd (startOrZero (loc (node bareWhile))))]),
           BreakStatement None])
       None)"
    by blast
  then have "firstOfBody (node q) =
         Some (IfStatement
           (BinaryExpression ''>''
              (BinaryExpression ''-''
                 (CallExpression
                    (MemberExpression (Identifier ''Date'') (Identifier ''now'') False) [])
                 (Identifier ''_auto_break_start''))
              (NumericLiteral 2000))
           (BlockStatement
              [ExpressionStatement
                 (CallExpression (Identifier ''notify'') [NumericLiteral 5, NumericLiteral 2]),
               BreakStatement None])
           None)"
    by (simp add: bareWhile_def examplePlugin_def exampleGenerateUid_def startOrZero_def
        del: firstOfBody.simps)
  with q show ?thesis by blast
qed

section \<open>The body of a rewritten loop (C2)\<close>

text \<open>
  Where the rewrite returns, the loop's body is rewritten in one of two ways: a block
  keeps its statements, in their order, behind the guard; any other statement becomes
  the second of the two statements of a new block, behind the guard. It returns for
  every loop that is an element of a statement list, of any of the three kinds.
\<close>

lemma body_rewritten:
  assumes "place p = ListElement pre post"
  shows "\<exists>q. breakAfter gen pl p = Inr q
           \<and> (\<forall>ss. get_body (node p) = BlockStatement ss \<longrightarrow>
                  get_body (node q) = BlockStatement (guardOf gen pl p # ss))
           \<and> (\<not> isBlockStatement (get_body (node p)) \<longrightarrow>
                  get_body (node q) = BlockStatement [guardOf gen pl p, get_body (node p)])"
proof -
  from breakAfter_succeeds [OF assms] obtain q where q: "breakAfter gen pl p = Inr q" ..
  have "get_body (node q) = BlockStatement [guardOf gen pl p, get_body (node p)]"
    if "\<not> isBlockStatement (get_body (node p))"
    using that body_breakAfter [OF q] by (cases "get_body (node p)") simp_all
  with q body_breakAfter [OF q] show ?thesis by auto
qed

text \<open>
  C2. Every visited loop is to get the guard as the first statement of its body. A loop
  that is the single statement of a branch does not: for \<^verbatim>\<open>if (c) while (a) b();\<close>
  line 43 leaves the path \<^verbatim>\<open>loop\<close> on a new block, line 45 gets the array of that
  block's statements instead of the loop's body, and line 48 throws a \<^verbatim>\<open>TypeError\<close>. The
  visit ends there: no loop is rewritten, and the body \<^verbatim>\<open>b();\<close> has no guard.
\<close>

theorem branch_body_not_rewritten:
  "breakAfter exampleGenerateUid examplePlugin branchWhile =
     Inl (TypeError ''loopBody.isBlockStatement is not a function'')
   \<and> traverse exampleGenerateUid examplePlugin [branchWhile] =
     Run [] (Some (TypeError ''loopBody.isBlockStatement is not a function''))
   \<and> get_body (node branchWhile) =
     ExpressionStatement (CallExpression (Identifier ''b'') [])"
  by (simp add: breakAfter_single branchWhile_def)

section \<open>The timer initialization (C3)\<close>

text \<open>
  For a loop that is an element of a statement list, the rewrite leaves that list with
  one statement more: right before the loop stands \<^verbatim>\<open>var <id> = Date.now()\<close>, one
  declaration of kind \<^verbatim>\<open>var\<close> with one declarator, which binds the identifier minted for
  this loop to a call of \<^verbatim>\<open>Date.now\<close> without arguments. The statements before and after
  are the old ones.
\<close>

lemma init_inserted:
  assumes "place p = ListElement pre post"
  shows "\<exists>q. breakAfter gen pl p = Inr q
           \<and> place q =
               ListElement
                 (pre @
                  [VariableDeclaration ''var''
                     [VariableDeclarator (Identifier (fst (gen (scope p) ''auto_break_start'')))
                        (Some (CallExpression
                                 (MemberExpression (Identifier ''Date'') (Identifier ''now'')
                                    False) []))]])
                 post"
  using assms by (simp add: breakAfter_list initOf_def generateInitialization_def)

text \<open>
  C3. Every visited loop is to get the declaration as a new sibling right before it, in
  the statement list it is in. A loop that is the single statement of a branch is in no
  list. For the \<^verbatim>\<open>do\<close> loop of \<^verbatim>\<open>for (x of xs) do { step(); } while (more);\<close>, line 43
  makes a list: the loop is replaced by a new block of the declaration and the loop, and
  the path \<^verbatim>\<open>loop\<close> is then the path of that block. The rewrite does not get past this:
  line 48 throws, and the visit returns no rewritten loop.
\<close>

theorem branch_init_wrapped:
  "insertBefore branchDo (initOf exampleGenerateUid branchDo) =
     OnBlock
       [VariableDeclaration ''var''
          [VariableDeclarator (Identifier ''_auto_break_start'')
             (Some (CallExpression
                      (MemberExpression (Identifier ''Date'') (Identifier ''now'') False) []))],
        Loop (node branchDo)]
   \<and> breakAfter exampleGenerateUid examplePlugin branchDo =
     Inl (TypeError ''loopBody.isBlockStatement is not a function'')"
  by (simp add: breakAfter_single insertBefore_def initOf_def generateInitialization_def
      branchDo_def exampleGenerateUid_def)

section \<open>The position handed to the callback (C9)\<close>



section \<open>What a rewrite leaves alone (C10)\<close>



section \<open>Lemmas on the synthesizer and the pass\<close>

lemma stripPrefix_append: "stripPrefix p (p @ s) = Some s"
  by (induction p) simp_all

lemma fst_transformOnBreak:
  "fst (transformOnBreak babel ob parsed) =
     fromStatement (firstStatement (transform babel (onAutoBreakCode ob)))"
  by (simp add: transformOnBreak_def Let_def)

lemma snd_transformOnBreak:
  "snd (transformOnBreak babel ob parsed) = parsed @ [onAutoBreakCode ob]"
  by (simp add: transformOnBreak_def Let_def)

lemma fromStatement_Inl:
  "\<not> isExpressionStatement s \<Longrightarrow> \<not> isFunctionDeclaration s \<Longrightarrow>
   fromStatement s = Inl (Error ''babel-babel-auto-break: invalid onBreak action'')"
  by (cases s rule: fromStatement.cases) simp_all

lemma fromStatement_Inr:
  "isExpressionStatement s \<or> isFunctionDeclaration s \<Longrightarrow> \<exists>cb. fromStatement s = Inr cb"
  by (cases s rule: fromStatement.cases) simp_all

lemma snd_autoBreak:
  "snd (autoBreak babel options parsed) =
     parsed @ [onAutoBreakCode (case opt_onBreak options of None \<Rightarrow> noop | Some f \<Rightarrow> f)]"
  by (simp add: autoBreak_def Let_def snd_transformOnBreak)

lemma fst_autoBreak:
  "fst (autoBreak babel options parsed) =
     (case fst (transformOnBreak babel (case opt_onBreak options of None \<Rightarrow> noop | Some f \<Rightarrow> f) parsed) of
        Inl e \<Rightarrow> Inl e
      | Inr cb \<Rightarrow> Inr \<lparr>pluginTimeout = (case opt_timeout options of None \<Rightarrow> 2000 | Some ms \<Rightarrow> ms),
                      pluginOnAutoBreak = cb\<rparr>)"
  by (simp add: autoBreak_def Let_def)

lemma fst_runPass:
  "fst (runPass gen babel options loops parsed) =
     (case fst (autoBreak babel options parsed) of
        Inl e \<Rightarrow> Run [] (Some e)
      | Inr plugin \<Rightarrow> traverse gen plugin loops)"
  by (simp add: runPass_def Let_def)

lemma snd_runPass:
  "snd (runPass gen babel options loops parsed) =
     parsed @ [onAutoBreakCode (case opt_onBreak options of None \<Rightarrow> noop | Some f \<Rightarrow> f)]"
  by (simp add: runPass_def Let_def snd_autoBreak)


lemma guardCallee_breakAfter:
  "breakAfter gen pl p = Inr p' \<Longrightarrow> guardCallee (node p') = Some (pluginOnAutoBreak pl)"
  by (simp add: guardCallee_def firstOfBody_breakAfter guardCall_guardOf del: firstOfBody.simps)

lemma traverse_callee:
  "l \<in> set (rewritten (traverse gen pl ps)) \<Longrightarrow>
   guardCallee (node l) = Some (pluginOnAutoBreak pl)"
proof (induction ps)
  case Nil
  then show ?case by simp
next
  case (Cons p ps)
  then show ?case
    by (cases "breakAfter gen pl p") (auto simp: guardCallee_breakAfter)
qed

lemma traverse_lists:
  "(\<forall>p \<in> set ps. \<exists>pre post. place p = ListElement pre post) \<Longrightarrow>
   thrown (traverse gen pl ps) = None \<and> length (rewritten (traverse gen pl ps)) = length ps"
proof (induction ps)
  case Nil
  show ?case by simp
next
  case (Cons p ps)
  then obtain pre post where "place p = ListElement pre post" by auto
  from breakAfter_succeeds [OF this] obtain q where "breakAfter gen pl p = Inr q" ..
  with Cons show ?case by simp
qed

lemma example_class:
  "firstStatement (transform exampleBabel (onAutoBreakCode (Callable ''class Reporter { }''))) =
     Some (OtherStatement ''class Reporter { }'')"
  by (simp add: onAutoBreakCode_def renameFunctionHead_def matchFunctionHead_def
      exampleBabel_def exampleParser_def firstStatement_def
      asyncText_def methodText_def)

lemma example_stuck:
  "firstStatement (transform exampleBabel (onAutoBreakCode (Message ''stuck''))) =
     Some (ExpressionStatement
             (ArrowFunctionExpression []
                (ExpressionBody
                   (CallExpression
                      (MemberExpression (Identifier ''console'') (Identifier ''error'') False)
                      [StringLiteral ''stuck'']))
                False))"
  by (simp add: onAutoBreakCode_def exampleBabel_def exampleParser_def firstStatement_def
      asyncText_def methodText_def)

lemma example_method:
  "firstStatement (transform exampleBabel
       (onAutoBreakCode (Callable methodText))) =
     Some (ExpressionStatement
             (CallExpression (Identifier ''report'')
                [Identifier ''line'', Identifier ''column'']))"
  by (simp add: onAutoBreakCode_def renameFunctionHead_def matchFunctionHead_def
      exampleBabel_def exampleParser_def firstStatement_def
      asyncText_def methodText_def)

lemma example_async:
  "firstStatement (transform exampleBabel (onAutoBreakCode (Callable asyncText))) =
     Some (FunctionDeclaration (Some (Identifier ''report''))
             [Identifier ''line'', Identifier ''column'']
             (BlockStatement
                [ExpressionStatement (OtherExpression ''await notify(line, column)'')])
             False True)"
  by (simp add: onAutoBreakCode_def renameFunctionHead_def matchFunctionHead_def
      exampleBabel_def exampleParser_def firstStatement_def
      asyncText_def methodText_def)

section \<open>One callback for the whole pass (C4)\<close>

text \<open>
  C4. In one run of the pass the callback is synthesized once, however many loops are
  visited: the run hands exactly one text to the parser, the one made from the
  \<^verbatim>\<open>onBreak\<close> option (or the default). When the synthesis gives the expression \<open>cb\<close>,
  the guard of every loop the run rewrites calls that same \<open>cb\<close>; and when the loops are
  elements of statement lists, the run rewrites every one of them and throws nothing.
  In this model a tree is a value, so that the expression is shared reads: the callees
  are equal; nothing in the rewrite takes the callback apart or changes it.
\<close>

theorem callback_once:
  "snd (runPass gen babel options loops parsed) =
     parsed @ [onAutoBreakCode (case opt_onBreak options of None \<Rightarrow> noop | Some f \<Rightarrow> f)]
   \<and> (fst (transformOnBreak babel (case opt_onBreak options of None \<Rightarrow> noop | Some f \<Rightarrow> f) parsed)
        = Inr cb \<longrightarrow>
       (\<forall>l \<in> set (rewritten (fst (runPass gen babel options loops parsed))).
           guardCallee (node l) = Some cb)
       \<and> ((\<forall>p \<in> set loops. \<exists>pre post. place p = ListElement pre post) \<longrightarrow>
            thrown (fst (runPass gen babel options loops parsed)) = None
            \<and> length (rewritten (fst (runPass gen babel options loops parsed))) = length loops))"
  by (auto simp: fst_runPass snd_runPass fst_autoBreak traverse_lists dest: traverse_callee)

theorem callback_once_witness:
  "snd (runPass exampleGenerateUid exampleBabel
          \<lparr>opt_onBreak = Some (Message ''stuck''), opt_timeout = None\<rparr> [bareWhile, blockFor] []) =
     [''() => console.error('' @ [dquote] @ ''stuck'' @ [dquote] @ '')'']
   \<and> thrown (fst (runPass exampleGenerateUid exampleBabel
          \<lparr>opt_onBreak = Some (Message ''stuck''), opt_timeout = None\<rparr> [bareWhile, blockFor] []))
       = None
   \<and> length (rewritten (fst (runPass exampleGenerateUid exampleBabel
          \<lparr>opt_onBreak = Some (Message ''stuck''), opt_timeout = None\<rparr> [bareWhile, blockFor] [])))
       = 2
   \<and> list_all (\<lambda>l. guardCallee (node l) =
             Some (ArrowFunctionExpression []
                   (ExpressionBody
                      (CallExpression
                         (MemberExpression (Identifier ''console'') (Identifier ''error'') False)
                         [StringLiteral ''stuck'']))
                   False))
        (rewritten (fst (runPass exampleGenerateUid exampleBabel
          \<lparr>opt_onBreak = Some (Message ''stuck''), opt_timeout = None\<rparr> [bareWhile, blockFor] [])))"
proof -
  have h: "fst (transformOnBreak exampleBabel (Message ''stuck'') []) =
      Inr (ArrowFunctionExpression []
             (ExpressionBody
                (CallExpression
                   (MemberExpression (Identifier ''console'') (Identifier ''error'') False)
                   [StringLiteral ''stuck'']))
             False)"
    by (simp add: fst_transformOnBreak example_stuck)
  have c: "onAutoBreakCode (Message ''stuck'') =
      ''() => console.error('' @ [dquote] @ ''stuck'' @ [dquote] @ '')''"
    by (simp add: onAutoBreakCode_def)
  have l: "\<forall>p \<in> set [bareWhile, blockFor]. \<exists>pre post. place p = ListElement pre post"
    by (simp add: bareWhile_def blockFor_def)
  from h c l callback_once [where gen = exampleGenerateUid and babel = exampleBabel
      and options = "\<lparr>opt_onBreak = Some (Message ''stuck''), opt_timeout = None\<rparr>"
      and loops = "[bareWhile, blockFor]" and parsed = "[]"
      and cb = "ArrowFunctionExpression []
                   (ExpressionBody
                      (CallExpression
                         (MemberExpression (Identifier ''console'') (Identifier ''error'') False)
                         [StringLiteral ''stuck'']))
                   False"]
  show ?thesis
    by (simp add: list_all_iff)
qed

section \<open>The text of the message callback (C5)\<close>

text \<open>
  For a message, the synthesized text is \<^verbatim>\<open>() => console.error("\<close>, the message with a
  backslash before each double quote, and \<^verbatim>\<open>")\<close>. Read as JavaScript, the literal in it
  has the message as its value whenever the message has no backslash and no line break.
\<close>

lemma readDoubleQuoted_quote: "readDoubleQuoted (dquote # r) = Literal [] r"
  by (cases r) simp_all

lemma readDoubleQuoted_plain:
  "c \<noteq> dquote \<Longrightarrow> c \<noteq> backslash \<Longrightarrow> c \<noteq> CHR 0x0A \<Longrightarrow> c \<noteq> CHR 0x0D \<Longrightarrow>
   r \<noteq> [] \<Longrightarrow> readDoubleQuoted (c # r) = consLiteral c (readDoubleQuoted r)"
  by (cases r) simp_all

lemma readDoubleQuoted_escaped_quote:
  "readDoubleQuoted (backslash # dquote # r) = consLiteral dquote (readDoubleQuoted r)"
  by simp

lemma read_escaped:
  "backslash \<notin> set m \<Longrightarrow> CHR 0x0A \<notin> set m \<Longrightarrow> CHR 0x0D \<notin> set m \<Longrightarrow>
   readDoubleQuoted (escapeQuotes m @ dquote # r) = Literal m r"
proof (induction m)
  case Nil
  show ?case by (simp add: readDoubleQuoted_quote)
next
  case (Cons c m)
  then have IH: "readDoubleQuoted (escapeQuotes m @ dquote # r) = Literal m r" by simp
  show ?case
  proof (cases "c = dquote")
    case True
    then show ?thesis using IH by (simp del: readDoubleQuoted.simps add: readDoubleQuoted_escaped_quote)
  next
    case False
    with Cons.prems have "readDoubleQuoted (c # escapeQuotes m @ dquote # r) =
        consLiteral c (readDoubleQuoted (escapeQuotes m @ dquote # r))"
      by (intro readDoubleQuoted_plain) auto
    with False IH show ?thesis by simp
  qed
qed

lemma message_reported:
  "backslash \<notin> set m \<Longrightarrow> CHR 0x0A \<notin> set m \<Longrightarrow> CHR 0x0D \<notin> set m \<Longrightarrow>
   reportedText (onAutoBreakCode (Message m)) = Literal m '')''"
proof -
  assume a: "backslash \<notin> set m" "CHR 0x0A \<notin> set m" "CHR 0x0D \<notin> set m"
  have "stripPrefix (''() => console.error('' @ [dquote])
          ((''() => console.error('' @ [dquote]) @ escapeQuotes m @ dquote # '')'') =
        Some (escapeQuotes m @ dquote # '')'')"
    by (rule stripPrefix_append)
  then have "reportedText (onAutoBreakCode (Message m)) =
      readDoubleQuoted (escapeQuotes m @ dquote # '')'')"
    by (simp add: reportedText_def onAutoBreakCode_def)
  with a show ?thesis by (simp add: read_escaped)
qed

text \<open>
  C5. For every message the synthesizer is to produce the text of an arrow function that
  reports the message to \<^verbatim>\<open>console.error\<close>, each double quote escaped so that the
  message is reported as it was given. Double quotes are escaped, and nothing else is:
  the message \<^verbatim>\<open>see "C:\temp"\<close> gives a text whose literal reads \<^verbatim>\<open>\t\<close> as a tab, so the
  callback reports another text; and the message made of one backslash gives
  \<^verbatim>\<open>() => console.error("\")\<close>, where the backslash escapes the closing quote and the
  literal never ends.
\<close>

theorem message_misreported:
  "onAutoBreakCode (Message (''see '' @ [dquote] @ ''C:'' @ [backslash] @ ''temp'' @ [dquote])) =
     ''() => console.error('' @ [dquote] @ ''see '' @ [backslash, dquote] @ ''C:'' @ [backslash]
       @ ''temp'' @ [backslash, dquote] @ [dquote] @ '')''
   \<and> reportedText (onAutoBreakCode
        (Message (''see '' @ [dquote] @ ''C:'' @ [backslash] @ ''temp'' @ [dquote]))) =
     Literal (''see '' @ [dquote] @ ''C:'' @ [CHR 0x09] @ ''emp'' @ [dquote]) '')''
   \<and> onAutoBreakCode (Message [backslash]) =
     ''() => console.error('' @ [dquote, backslash, dquote] @ '')''
   \<and> reportedText (onAutoBreakCode (Message [backslash])) = SyntaxError"
  by (simp add: onAutoBreakCode_def reportedText_def)

section \<open>When the synthesis fails (C6)\<close>

text \<open>
  The synthesizer raises its error exactly when the first statement of the parsed text
  is neither an expression statement nor a function declaration (so also when there is
  no statement). In that case \<^verbatim>\<open>transformOnBreak\<close>, and with it the construction of the
  plugin and the whole run, end with the error
  \<^verbatim>\<open>babel-babel-auto-break: invalid onBreak action\<close>; the parser has been asked once, no
  loop is visited, and no plugin with another callback is made. In every other case the
  plugin is made, with the configured timeout or 2000.
\<close>

lemma synthesis_fails_exactly:
  assumes "ob = (case opt_onBreak options of None \<Rightarrow> noop | Some f \<Rightarrow> f)"
    and "s = firstStatement (transform babel (onAutoBreakCode ob))"
  shows "(\<not> isExpressionStatement s \<and> \<not> isFunctionDeclaration s \<longrightarrow>
            fst (transformOnBreak babel ob parsed) =
              Inl (Error ''babel-babel-auto-break: invalid onBreak action'')
          \<and> fst (autoBreak babel options parsed) =
              Inl (Error ''babel-babel-auto-break: invalid onBreak action'')
          \<and> fst (runPass gen babel options loops parsed) =
              Run [] (Some (Error ''babel-babel-auto-break: invalid onBreak action''))
          \<and> snd (runPass gen babel options loops parsed) = parsed @ [onAutoBreakCode ob])
       \<and> (isExpressionStatement s \<or> isFunctionDeclaration s \<longrightarrow>
            (\<exists>cb. fst (transformOnBreak babel ob parsed) = Inr cb
               \<and> fst (autoBreak babel options parsed) =
                   Inr \<lparr>pluginTimeout = (case opt_timeout options of None \<Rightarrow> 2000 | Some ms \<Rightarrow> ms),
                        pluginOnAutoBreak = cb\<rparr>))"
proof (intro conjI impI)
  assume "isExpressionStatement s \<or> isFunctionDeclaration s"
  then obtain cb where cb: "fromStatement s = Inr cb"
    using fromStatement_Inr by blast
  with assms show "\<exists>cb. fst (transformOnBreak babel ob parsed) = Inr cb
      \<and> fst (autoBreak babel options parsed) =
          Inr \<lparr>pluginTimeout = (case opt_timeout options of None \<Rightarrow> 2000 | Some ms \<Rightarrow> ms),
               pluginOnAutoBreak = cb\<rparr>"
    by (simp add: fst_autoBreak fst_transformOnBreak)
next
  assume "\<not> isExpressionStatement s \<and> \<not> isFunctionDeclaration s"
  then have e: "fromStatement s = Inl (Error ''babel-babel-auto-break: invalid onBreak action'')"
    by (simp add: fromStatement_Inl)
  with assms show "fst (transformOnBreak babel ob parsed) =
      Inl (Error ''babel-babel-auto-break: invalid onBreak action'')"
    by (simp add: fst_transformOnBreak)
  from assms e show "fst (autoBreak babel options parsed) =
      Inl (Error ''babel-babel-auto-break: invalid onBreak action'')"
    by (simp add: fst_autoBreak fst_transformOnBreak)
  from assms e show "fst (runPass gen babel options loops parsed) =
      Run [] (Some (Error ''babel-babel-auto-break: invalid onBreak action''))"
    by (simp add: fst_runPass fst_autoBreak fst_transformOnBreak)
  from assms show "snd (runPass gen babel options loops parsed) = parsed @ [onAutoBreakCode ob]"
    by (simp add: snd_runPass)
qed

text \<open>
  C6. The error of line 80 is to be raised exactly when the parsed text is neither an
  expression statement that wraps a function nor a function declaration, and nothing
  else is to make the pass fail. The code departs from that twice. Line 70 does not look
  at what an expression statement wraps: the text of a method whose brace stands on the
  next line parses to a call followed by a block, and the synthesizer returns that call
  as the callback, against its comment of line 71 and its return type, without an
  error. And a visit can throw: in a run over \<^verbatim>\<open>if (c) while (a) b();\<close> the plugin is
  made, and the visit of the loop ends the run with a \<^verbatim>\<open>TypeError\<close> at line 48.
\<close>

theorem other_failures:
  "\<not> wrapsCallable (firstStatement (transform exampleBabel
        (onAutoBreakCode (Callable methodText))))
   \<and> \<not> isFunctionDeclaration (firstStatement (transform exampleBabel
        (onAutoBreakCode (Callable methodText))))
   \<and> fst (autoBreak exampleBabel
        \<lparr>opt_onBreak = Some (Callable methodText), opt_timeout = None\<rparr> []) =
      Inr \<lparr>pluginTimeout = 2000,
           pluginOnAutoBreak = CallExpression (Identifier ''report'')
                                 [Identifier ''line'', Identifier ''column'']\<rparr>
   \<and> fst (runPass exampleGenerateUid exampleBabel
        \<lparr>opt_onBreak = Some (Message ''stuck''), opt_timeout = None\<rparr> [branchWhile] []) =
      Run [] (Some (TypeError ''loopBody.isBlockStatement is not a function''))"
  by (simp add: example_method example_stuck fst_autoBreak fst_transformOnBreak fst_runPass
      breakAfter_single branchWhile_def)

section \<open>Naming an anonymous function (C7)\<close>

lemma stripPrefix_Some: "stripPrefix p s = Some r \<Longrightarrow> s = p @ r"
  by (induction p s rule: stripPrefix.induct) (auto split: if_splits)

lemma matchFunctionHead_Some:
  assumes "list_all isWhiteSpace ws"
  shows "matchFunctionHead (''function'' @ ws @ CHR ''('' # rest) = Some rest"
proof -
  have "\<not> isWhiteSpace (CHR ''('')" by (simp add: isWhiteSpace_def)
  with assms have "dropWhile isWhiteSpace (ws @ CHR ''('' # rest) = CHR ''('' # rest"
    by (simp add: dropWhile_append list_all_iff)
  moreover have "stripPrefix ''function'' (''function'' @ ws @ CHR ''('' # rest)
      = Some (ws @ CHR ''('' # rest)"
    by (rule stripPrefix_append)
  ultimately show ?thesis
    unfolding matchFunctionHead_def by simp
qed

lemma matchFunctionHead_SomeD:
  assumes "matchFunctionHead s = Some rest"
  shows "\<exists>ws. list_all isWhiteSpace ws \<and> s = ''function'' @ ws @ CHR ''('' # rest"
proof -
  from assms obtain r where r: "stripPrefix ''function'' s = Some r"
    and d: "dropWhile isWhiteSpace r = CHR ''('' # rest"
    unfolding matchFunctionHead_def
    by (auto split: option.splits list.splits if_splits)
  have "r = takeWhile isWhiteSpace r @ dropWhile isWhiteSpace r" by simp
  with d have "r = takeWhile isWhiteSpace r @ CHR ''('' # rest" by simp
  moreover have "list_all isWhiteSpace (takeWhile isWhiteSpace r)"
    by (simp add: list_all_iff) (meson set_takeWhileD)
  moreover from r have "s = ''function'' @ r" by (rule stripPrefix_Some)
  ultimately show ?thesis by metis
qed

lemma matchFunctionHead_NoneD:
  assumes "matchFunctionHead src = None"
  shows "\<forall>ws rest. list_all isWhiteSpace ws \<longrightarrow> src \<noteq> ''function'' @ ws @ CHR ''('' # rest"
proof (intro allI impI notI)
  fix ws rest
  assume ws: "list_all isWhiteSpace ws" and src: "src = ''function'' @ ws @ CHR ''('' # rest"
  from ws have "matchFunctionHead (''function'' @ ws @ CHR ''('' # rest) = Some rest"
    by (rule matchFunctionHead_Some)
  with assms src show False by (simp only: option.distinct)
qed

text \<open>
  C7. The text of a function is rewritten exactly when it starts with \<^verbatim>\<open>function\<close>,
  then white space or none, then an opening parenthesis, that is, when it is the text of
  an anonymous function: that start is replaced by \<^verbatim>\<open>function $onAutoBreak$(\<close> and the
  rest of the text is kept. Every other text is handed to the parser unchanged: an arrow
  function, and also a function that has a name of its own.
\<close>

theorem head_renamed:
  "(list_all isWhiteSpace ws \<longrightarrow>
      onAutoBreakCode (Callable (''function'' @ ws @ CHR ''('' # rest)) =
        ''function $onAutoBreak$('' @ rest)
   \<and> ((\<forall>ws rest. list_all isWhiteSpace ws \<longrightarrow> src \<noteq> ''function'' @ ws @ CHR ''('' # rest) \<longrightarrow>
      onAutoBreakCode (Callable src) = src)"
proof (intro conjI impI)
  assume "list_all isWhiteSpace ws"
  then have "matchFunctionHead (''function'' @ ws @ CHR ''('' # rest) = Some rest"
    by (rule matchFunctionHead_Some)
  then show "onAutoBreakCode (Callable (''function'' @ ws @ CHR ''('' # rest)) =
        ''function $onAutoBreak$('' @ rest"
    by (simp only: onAutoBreakCode_def renameFunctionHead_def onBreak_value.case option.case)
next
  assume no: "\<forall>ws rest. list_all isWhiteSpace ws \<longrightarrow> src \<noteq> ''function'' @ ws @ CHR ''('' # rest"
  have "matchFunctionHead src = None"
  proof (cases "matchFunctionHead src")
    case (Some rest)
    from matchFunctionHead_SomeD [OF this] no show ?thesis by blast
  qed simp
  then show "onAutoBreakCode (Callable src) = src"
    by (simp add: onAutoBreakCode_def renameFunctionHead_def)
qed

theorem head_renamed_witness:
  "onAutoBreakCode noop = ''function $onAutoBreak$() { }''
   \<and> onAutoBreakCode (Callable ''(line, column) => { }'') = ''(line, column) => { }''
   \<and> onAutoBreakCode (Callable ''function report(line, column) { }'') =
       ''function report(line, column) { }''"
proof -
  have a: "list_all isWhiteSpace '' ''" by (simp add: isWhiteSpace_def)
  have b: "\<forall>ws rest. list_all isWhiteSpace ws \<longrightarrow>
      ''(line, column) => { }'' \<noteq> ''function'' @ ws @ CHR ''('' # rest"
    by (rule matchFunctionHead_NoneD) (simp add: matchFunctionHead_def)
  have c: "\<forall>ws rest. list_all isWhiteSpace ws \<longrightarrow>
      ''function report(line, column) { }'' \<noteq> ''function'' @ ws @ CHR ''('' # rest"
    by (rule matchFunctionHead_NoneD) (simp add: matchFunctionHead_def isWhiteSpace_def)
  from a b c
    head_renamed [where ws = "'' ''" and rest = "'') { }''" and src = "''(line, column) => { }''"]
    head_renamed [where ws = "[]" and src = "''function report(line, column) { }''"]
  show ?thesis by (simp add: noop_def)
qed

text \<open>
  As the specification words it, every text that begins with the keyword is renamed. The
  text of a named function begins with the keyword and is left as it is.
\<close>

theorem head_renamed_counterexample:
  "stripPrefix ''function'' ''function report(line, column) { }'' = Some '' report(line, column) { }''
   \<and> onAutoBreakCode (Callable ''function report(line, column) { }'') =
       ''function report(line, column) { }''"
  by (simp add: onAutoBreakCode_def renameFunctionHead_def matchFunctionHead_def isWhiteSpace_def)

section \<open>From a declaration to an expression (C8)\<close>

text \<open>
  When the first statement is a function declaration, the callback is the function
  expression built from the declaration's identifier, parameters and body. The builder
  is given these three only, so the expression is neither a generator nor async,
  whatever the declaration was.
\<close>

lemma declaration_converted:
  "firstStatement (transform babel (onAutoBreakCode ob)) =
       Some (FunctionDeclaration fid params body gen asy) \<Longrightarrow>
   fst (transformOnBreak babel ob parsed) = Inr (FunctionExpression fid params body False False)"
  by (simp add: fst_transformOnBreak)

lemma declaration_converted_examples:
  "fst (transformOnBreak exampleBabel (Callable ''function report(line, column) { }'') []) =
     Inr (FunctionExpression (Some (Identifier ''report''))
            [Identifier ''line'', Identifier ''column''] (BlockStatement []) False False)
   \<and> fst (transformOnBreak exampleBabel noop []) =
     Inr (FunctionExpression (Some (Identifier ''$onAutoBreak$'')) [] (BlockStatement [])
            False False)"
proof -
  have a: "firstStatement (transform exampleBabel
        (onAutoBreakCode (Callable ''function report(line, column) { }''))) =
      Some (FunctionDeclaration (Some (Identifier ''report''))
            [Identifier ''line'', Identifier ''column''] (BlockStatement []) False False)"
    by (simp add: onAutoBreakCode_def renameFunctionHead_def matchFunctionHead_def
        isWhiteSpace_def exampleBabel_def exampleParser_def firstStatement_def
      asyncText_def methodText_def)
  have b: "firstStatement (transform exampleBabel (onAutoBreakCode noop)) =
      Some (FunctionDeclaration (Some (Identifier ''$onAutoBreak$'')) [] (BlockStatement [])
            False False)"
    by (simp add: noop_def onAutoBreakCode_def renameFunctionHead_def matchFunctionHead_def
        isWhiteSpace_def exampleBabel_def exampleParser_def firstStatement_def
      asyncText_def methodText_def)
  from declaration_converted [OF a, of "[]"] declaration_converted [OF b, of "[]"]
  show ?thesis by simp
qed

text \<open>
  C8. A function declaration is to become an equivalent function expression, with the
  same identifier, parameters and body. The three are carried over; the marker
  \<^verbatim>\<open>async\<close> (and likewise \<^verbatim>\<open>generator\<close>) is not: the declaration of an async function
  becomes a function expression that is not async, with the \<^verbatim>\<open>await\<close> still in its body.
\<close>

theorem async_dropped:
  "firstStatement (transform exampleBabel (onAutoBreakCode (Callable asyncText))) =
     Some (FunctionDeclaration (Some (Identifier ''report''))
             [Identifier ''line'', Identifier ''column'']
             (BlockStatement
                [ExpressionStatement (OtherExpression ''await notify(line, column)'')])
             False True)
   \<and> fst (transformOnBreak exampleBabel (Callable asyncText) []) =
     Inr (FunctionExpression (Some (Identifier ''report''))
            [Identifier ''line'', Identifier ''column'']
            (BlockStatement
               [ExpressionStatement (OtherExpression ''await notify(line, column)'')])
            False False)"
  by (simp add: example_async fst_transformOnBreak)

end
